theory Spec2Isabelle
  imports Main "HOL-Library.Word"
begin

section \<open>Host values: bytes, blobs, errors\<close>

text \<open>
  DataMan (\<open>src/client/data-man-api.js\<close>) and DataMan.Buffer
  (\<open>src/server/data-man-buffer.js\<close>) wrap one piece of binary data and convert it
  between representations. Everything that moves bytes is a primitive of the host
  (Blob, FileReader, XMLHttpRequest, atob, Node's Buffer); the primitives whose result is
  fixed by their standard are written out below, the ones that depend on the outside
  world (the network, a failing read, which globals exist) are fields of a \<open>host\<close> record.
\<close>

type_synonym byte = "8 word"

text \<open>A Blob (or File): its bytes and its \<open>type\<close> property; \<open>blob.size\<close> is the
  number of bytes.\<close>

record jsblob =
  bytes :: "byte list"
  btype :: string

definition blobSize :: "jsblob \<Rightarrow> nat" where
  "blobSize b = length (bytes b)"

text \<open>
  The values thrown or passed to a callback's error slot. \<open>Error m\<close> is
  \<open>new Error(m)\<close> with the message of the source; \<open>MeteorError\<close> is an instance of
  \<open>Meteor.Error\<close>; \<open>XhrFailure\<close> and \<open>ReadFailure\<close> are the events the host passes to
  \<open>xhr.onerror\<close> and \<open>reader.onerror\<close>; \<open>InvalidCharacterError\<close> is what \<open>atob\<close>
  throws; \<open>ReferenceError x\<close> is the fault on the undeclared identifier \<open>x\<close>;
  \<open>TypeError\<close> is a call of something that is not a function; \<open>SyntaxError\<close> is
  what \<open>xhr.open\<close> throws on a URL it cannot parse.
\<close>

datatype error =
    Error string
  | MeteorError string
  | XhrFailure string
  | ReadFailure string
  | InvalidCharacterError
  | ReferenceError string
  | TypeError string
  | SyntaxError string

text \<open>
  What a method call does with its result, as far as the caller can see:
  \<open>Callback (Inl e)\<close> is \<open>callback(e)\<close>, \<open>Callback (Inr v)\<close> is \<open>callback(null, v)\<close>,
  \<open>Thrown e\<close> is an exception leaving the method (or its continuation),
  \<open>Returned v\<close> is a value returned without any callback being invoked,
  \<open>Logged e\<close> is \<open>console.error\<close> of the default callback, and \<open>NoEffect\<close> is a call
  that ends without any of these.
\<close>

datatype 'a outcome =
    Callback "error + 'a"
  | Thrown error
  | Returned 'a
  | Logged error
  | NoEffect

text \<open>The calls into byte-moving host primitives a method makes, in order.\<close>

datatype io =
    Atob string
  | XhrSend string
  | ReadAsArrayBuffer jsblob
  | ReadAsDataURL jsblob
  | WindowSaveAs jsblob "string option"

record host =
  hasFile :: bool
  hasBlob :: bool
  hasArrayBuffer :: bool
  hasFileReader :: bool
  hasSlice :: bool
  hasWindow :: bool
  hasSaveAs :: bool
  hasAtob :: bool
  hasXMLHttpRequest :: bool
  xhrOpen :: "string \<Rightarrow> error option"
  xhr :: "string \<Rightarrow> error + jsblob"
  readError :: "jsblob \<Rightarrow> error option"
  globalSelf :: "byte list option option"

text \<open>
  \<open>hasFile\<close>, \<open>hasBlob\<close>, \<open>hasArrayBuffer\<close>, \<open>hasFileReader\<close>, \<open>hasWindow\<close>,
  \<open>hasAtob\<close>, \<open>hasXMLHttpRequest\<close>: whether the global of that name is defined (the
  source tests the first five with \<open>typeof X !== "undefined"\<close>; it uses \<open>atob\<close>,
  \<open>XMLHttpRequest\<close> and, in \<open>dataURItoBlob\<close>, \<open>Blob\<close> without a test, so their absence is
  a \<open>ReferenceError\<close>). \<open>hasSlice\<close>: whether blobs expose one of \<open>slice\<close>,
  \<open>webkitSlice\<close>, \<open>mozSlice\<close>. \<open>hasSaveAs\<close>: whether \<open>window.saveAs\<close> is a function.
  \<open>xhrOpen u\<close>: the exception \<open>xhr.open('GET', u, true)\<close> throws, if it throws one
  (a \<open>SyntaxError\<close> on a URL that does not parse). \<open>xhr u\<close>: how the GET of \<open>u\<close>
  ends once sent, \<open>onerror\<close> (\<open>Inl\<close>) or \<open>onload\<close> with the response blob. \<open>readError b\<close>: the error of a FileReader reading \<open>b\<close>, or \<open>None\<close>
  when the read loads. \<open>globalSelf\<close>: the global variable \<open>self\<close>, if the host
  defines one, as the value of its \<open>buffer\<close> property (\<open>None\<close> for \<open>undefined\<close>).
\<close>

section \<open>String and base64 primitives\<close>

text \<open>\<open>String.prototype.slice(a, b)\<close> and \<open>Blob.prototype.slice(a, b)\<close> resolve their
  indices the same way: a negative index counts from the end, and both are clamped to
  \<open>[0, len]\<close>.\<close>

definition relIndex :: "nat \<Rightarrow> int \<Rightarrow> nat" where
  "relIndex len i = (if i < 0 then nat (max (int len + i) 0) else nat (min i (int len)))"

definition sliceList :: "'a list \<Rightarrow> int \<Rightarrow> int \<Rightarrow> 'a list" where
  "sliceList xs a b =
     (let from = relIndex (length xs) a; to = relIndex (length xs) b
      in take (to - from) (drop from xs))"

text \<open>\<open>s.indexOf(c)\<close> for a one-character \<open>c\<close>: the first position, or \<open>-1\<close>.\<close>

fun indexOf :: "string \<Rightarrow> char \<Rightarrow> int" where
  "indexOf [] c = -1"
| "indexOf (x # xs) c =
     (if x = c then 0 else (let i = indexOf xs c in if i < 0 then -1 else i + 1))"

text \<open>\<open>s.split(',')[1]\<close>: the text between the first and the second comma;
  \<open>None\<close> is \<open>undefined\<close> (no comma in \<open>s\<close>).\<close>

definition splitComma1 :: "string \<Rightarrow> string option" where
  "splitComma1 s =
     (case dropWhile (\<lambda>c. c \<noteq> CHR '','') s of
        [] \<Rightarrow> None
      | _ # rest \<Rightarrow> Some (takeWhile (\<lambda>c. c \<noteq> CHR '','') rest))"

text \<open>The decimal text of a number, as string concatenation produces it.\<close>

fun showNat :: "nat \<Rightarrow> string" where
  "showNat n =
     (if n < 10 then [''0123456789'' ! n]
      else showNat (n div 10) @ [''0123456789'' ! (n mod 10)])"

definition b64alphabet :: string where
  "b64alphabet = ''ABCDEFGHIJKLMNOPQRSTUVWXYZabcdefghijklmnopqrstuvwxyz0123456789+/''"

definition b64char :: "nat \<Rightarrow> char" where
  "b64char n = b64alphabet ! (n mod 64)"

text \<open>\<open>buffer.toString("base64")\<close> and the payload of \<open>readAsDataURL\<close>: RFC 4648
  base64 with padding.\<close>

fun base64 :: "byte list \<Rightarrow> string" where
  "base64 [] = []"
| "base64 [a] =
     [b64char (unat a div 4), b64char ((unat a mod 4) * 16), CHR ''='', CHR ''='']"
| "base64 [a, b] =
     [b64char (unat a div 4), b64char ((unat a mod 4) * 16 + unat b div 16),
      b64char ((unat b mod 16) * 4), CHR ''='']"
| "base64 (a # b # c # rest) =
     [b64char (unat a div 4), b64char ((unat a mod 4) * 16 + unat b div 16),
      b64char ((unat b mod 16) * 4 + unat c div 64), b64char (unat c mod 64)]
     @ base64 rest"

fun b64find :: "string \<Rightarrow> char \<Rightarrow> nat \<Rightarrow> nat option" where
  "b64find [] c n = None"
| "b64find (x # xs) c n = (if x = c then Some n else b64find xs c (Suc n))"

definition b64val :: "char \<Rightarrow> nat option" where
  "b64val c = b64find b64alphabet c 0"

fun sextets :: "string \<Rightarrow> nat list option" where
  "sextets [] = Some []"
| "sextets (c # cs) =
     (case b64val c of
        None \<Rightarrow> None
      | Some v \<Rightarrow> (case sextets cs of None \<Rightarrow> None | Some vs \<Rightarrow> Some (v # vs)))"

fun unsextets :: "nat list \<Rightarrow> byte list" where
  "unsextets (a # b # c # d # rest) =
     [of_nat (a * 4 + b div 16), of_nat ((b mod 16) * 16 + c div 4),
      of_nat ((c mod 4) * 64 + d)] @ unsextets rest"
| "unsextets [a, b, c] = [of_nat (a * 4 + b div 16), of_nat ((b mod 16) * 16 + c div 4)]"
| "unsextets [a, b] = [of_nat (a * 4 + b div 16)]"
| "unsextets _ = []"

definition isAsciiSpace :: "char \<Rightarrow> bool" where
  "isAsciiSpace c = (c = CHR '' '' \<or> c = CHR 0x09 \<or> c = CHR 0x0A \<or> c = CHR 0x0C \<or> c = CHR 0x0D)"

definition stripPadding :: "string \<Rightarrow> string" where
  "stripPadding s =
     (if length s mod 4 = 0 then
        (case rev s of
           x # y # r \<Rightarrow>
             (if x = CHR ''='' \<and> y = CHR ''='' then rev r
              else if x = CHR ''='' then rev (y # r) else s)
         | _ \<Rightarrow> s)
      else s)"

text \<open>
  \<open>atob(s)\<close>, the forgiving base64 decoder of the HTML standard: ASCII whitespace is
  dropped, one or two padding characters are removed from an input whose length is a
  multiple of four, a remaining length of \<open>1 mod 4\<close> or a character outside the
  alphabet throws \<open>InvalidCharacterError\<close>. The result is the decoded bytes (the
  source reads them back at once with \<open>charCodeAt\<close> into a \<open>Uint8Array\<close>).
\<close>

definition atob :: "string \<Rightarrow> error + byte list" where
  "atob s =
     (let t = stripPadding (filter (\<lambda>c. \<not> isAsciiSpace c) s) in
      if length t mod 4 = 1 then Inl InvalidCharacterError
      else (case sextets t of
              None \<Rightarrow> Inl InvalidCharacterError
            | Some vs \<Rightarrow> Inr (unsextets vs)))"

text \<open>
  The type of a new Blob or of a slice, as the File API stores it: the empty string when
  the given type has a character outside U+0020..U+007E, else the type in ASCII lower
  case.
\<close>

definition isPrintable :: "char \<Rightarrow> bool" where
  "isPrintable c = (32 \<le> (of_char c :: nat) \<and> (of_char c :: nat) \<le> 126)"

definition asciiLower :: "char \<Rightarrow> char" where
  "asciiLower c =
     (case map_of (zip ''ABCDEFGHIJKLMNOPQRSTUVWXYZ'' ''abcdefghijklmnopqrstuvwxyz'') c of
        None \<Rightarrow> c
      | Some l \<Rightarrow> l)"

definition normalizeType :: "string \<Rightarrow> string" where
  "normalizeType t = (if list_all isPrintable t then map asciiLower t else [])"

text \<open>\<open>new Blob([bs], {type: t})\<close>; an \<open>undefined\<close> type gives the empty string.\<close>

definition newBlob :: "byte list \<Rightarrow> string option \<Rightarrow> jsblob" where
  "newBlob bs t =
     \<lparr>bytes = bs, btype = (case t of None \<Rightarrow> [] | Some x \<Rightarrow> normalizeType x)\<rparr>"

text \<open>\<open>blob.slice(start, end, contentType)\<close> of the File API.\<close>

definition blobSlice :: "jsblob \<Rightarrow> int \<Rightarrow> int \<Rightarrow> string option \<Rightarrow> jsblob" where
  "blobSlice b start end t = newBlob (sliceList (bytes b) start end) t"

text \<open>The result of \<open>readAsDataURL(blob)\<close>: the type of the blob
  (\<open>application/octet-stream\<close> for a blob without type) and the base64 text of its
  bytes.\<close>

definition dataURLOf :: "jsblob \<Rightarrow> string" where
  "dataURLOf b =
     ''data:'' @ (if btype b = [] then ''application/octet-stream'' else btype b)
       @ '';base64,'' @ base64 (bytes b)"

section \<open>The client: DataMan\<close>

text \<open>
  The constructor probes the shape of its argument, so an object is modelled by the
  answers to the probes: \<open>instanceofFile\<close>, \<open>instanceofBlob\<close>,
  \<open>instanceofArrayBuffer\<close> for \<open>data instanceof X\<close>, \<open>ejsonBinary\<close> for
  \<open>EJSON.isBinary(data)\<close>, together with the bytes it holds and its \<open>type\<close> property.
\<close>

record jsobject =
  instanceofFile :: bool
  instanceofBlob :: bool
  instanceofArrayBuffer :: bool
  ejsonBinary :: bool
  content :: "byte list"
  otype :: string

datatype jsval = Obj jsobject | Str string | Num int | Undefined

definition asBlob :: "jsobject \<Rightarrow> jsblob" where
  "asBlob ob = \<lparr>bytes = content ob, btype = otype ob\<rparr>"

text \<open>The instance: \<open>self.blob\<close>, \<open>self.dataUri\<close>, \<open>self.url\<close>, \<open>self.type\<close> and
  \<open>self._size\<close>; \<open>None\<close> is \<open>undefined\<close>.\<close>

record dataMan =
  self_blob :: "jsblob option"
  self_dataUri :: "string option"
  self_url :: "string option"
  self_type :: "string option"
  self_size :: "nat option"

definition newInstance :: dataMan where
  "newInstance = \<lparr>self_blob = None, self_dataUri = None, self_url = None,
                   self_type = None, self_size = None\<rparr>"

text \<open>A string property is truthy when it is set and not empty.\<close>

definition truthy :: "string option \<Rightarrow> bool" where
  "truthy v = (case v of None \<Rightarrow> False | Some x \<Rightarrow> x \<noteq> [])"

definition DataMan :: "host \<Rightarrow> jsval \<Rightarrow> string option \<Rightarrow> error + dataMan" where
  "DataMan h data typ =
     (case data of
        Obj ob \<Rightarrow>
          (if hasFile h \<and> instanceofFile ob then
             Inr (newInstance\<lparr>self_blob := Some (asBlob ob), self_type := Some (otype ob)\<rparr>)
           else if hasBlob h \<and> instanceofBlob ob then
             Inr (newInstance\<lparr>self_blob := Some (asBlob ob), self_type := Some (otype ob)\<rparr>)
           else if hasArrayBuffer h \<and> instanceofArrayBuffer ob \<or> ejsonBinary ob then
             (if \<not> hasBlob h then
                Inl (Error ''Browser must support Blobs to handle an ArrayBuffer or Uint8Array'')
              else
                Inr (newInstance\<lparr>self_blob := Some (newBlob (content ob) typ), self_type := typ\<rparr>))
           else Inl (Error ''DataMan constructor received data that it doesn't support''))
      | Str s \<Rightarrow>
          (if sliceList s 0 5 = ''data:'' then
             Inr (newInstance\<lparr>self_dataUri := Some s,
                               self_type := Some (sliceList s 5 (indexOf s CHR '';''))\<rparr>)
           else if sliceList s 0 5 = ''http:'' \<or> sliceList s 0 6 = ''https:'' then
             Inr (newInstance\<lparr>self_url := Some s, self_type := typ\<rparr>)
           else Inl (Error ''DataMan constructor received unrecognized data string''))
      | _ \<Rightarrow> Inl (Error ''DataMan constructor received data that it doesn't support''))"

text \<open>\<open>dataURI.split(',')[1]\<close> as \<open>atob\<close> receives it: an \<open>undefined\<close> piece is
  converted to the string \<open>undefined\<close>.\<close>

definition payloadOf :: "string \<Rightarrow> string" where
  "payloadOf dataURI = (case splitComma1 dataURI of None \<Rightarrow> ''undefined'' | Some p \<Rightarrow> p)"

text \<open>\<open>dataURItoBlob(dataURI, dataTYPE)\<close>: \<open>atob\<close> of the payload, copied byte by
  byte into a new Blob. The function uses \<open>atob\<close> and \<open>Blob\<close> without testing for
  them; an exception leaves the function.\<close>

definition dataURItoBlob :: "host \<Rightarrow> string \<Rightarrow> string option \<Rightarrow> error + jsblob" where
  "dataURItoBlob h dataURI dataTYPE =
     (if \<not> hasAtob h then Inl (ReferenceError ''atob'')
      else
        (case atob (payloadOf dataURI) of
           Inl e \<Rightarrow> Inl e
         | Inr str \<Rightarrow>
             (if \<not> hasBlob h then Inl (ReferenceError ''Blob'')
              else Inr (newBlob str dataTYPE))))"

text \<open>The calls of \<open>atob\<close> that \<open>dataURItoBlob\<close> makes.\<close>

definition atobCalls :: "host \<Rightarrow> string \<Rightarrow> io list" where
  "atobCalls h dataURI = (if hasAtob h then [Atob (payloadOf dataURI)] else [])"

text \<open>
  Every method returns the instance after the call, the host primitives it invoked and
  its outcome. A callback is invoked at most once and last, so a method that passes a
  continuation to \<open>getBlob\<close> is the case analysis of that continuation on what
  \<open>getBlob\<close> delivers. An exception from \<open>getBlob\<close> itself (of \<open>dataURItoBlob\<close>,
  of \<open>new XMLHttpRequest()\<close>, of \<open>xhr.open\<close>) passes through.
  A call is followed up to the completion of the asynchronous primitive it started (the
  GET, the read); several pending calls on one instance are not interleaved.
\<close>

type_synonym 'a result = "dataMan \<times> io list \<times> 'a outcome"

definition dataManGetBlob :: "host \<Rightarrow> dataMan \<Rightarrow> jsblob result" where
  "dataManGetBlob h self =
     (case self_blob self of
        Some b \<Rightarrow> (self, [], Callback (Inr b))
      | None \<Rightarrow>
          if truthy (self_dataUri self) then
            (case dataURItoBlob h (the (self_dataUri self)) (self_type self) of
               Inl e \<Rightarrow> (self, atobCalls h (the (self_dataUri self)), Thrown e)
             | Inr b \<Rightarrow>
                 (self\<lparr>self_blob := Some b\<rparr>,
                  atobCalls h (the (self_dataUri self)), Callback (Inr b)))
          else if truthy (self_url self) then
            (if \<not> hasXMLHttpRequest h then (self, [], Thrown (ReferenceError ''XMLHttpRequest''))
             else
               (case xhrOpen h (the (self_url self)) of
                  Some e \<Rightarrow> (self, [], Thrown e)
                | None \<Rightarrow>
                    (case xhr h (the (self_url self)) of
                       Inl err \<Rightarrow> (self, [XhrSend (the (self_url self))], Callback (Inl err))
                     | Inr response \<Rightarrow>
                         (self\<lparr>self_blob := Some response\<rparr>,
                          [XhrSend (the (self_url self))], Callback (Inr response)))))
          else (self, [], NoEffect))"

text \<open>\<open>defaultCallback(err)\<close>: a Meteor error is logged, any other error is thrown,
  and a result is dropped.\<close>

definition defaultCallback :: "error + 'a \<Rightarrow> 'a outcome" where
  "defaultCallback r =
     (case r of
        Inl err \<Rightarrow> (case err of MeteorError m \<Rightarrow> Logged err | _ \<Rightarrow> Thrown err)
      | Inr _ \<Rightarrow> NoEffect)"

text \<open>Calling \<open>callback\<close>: the caller's function when one was passed
  (\<open>user = True\<close>), else \<open>defaultCallback\<close>.\<close>

definition invoke :: "bool \<Rightarrow> error + 'a \<Rightarrow> 'a outcome" where
  "invoke user r = (if user then Callback r else defaultCallback r)"

text \<open>What is left of an outcome of \<open>getBlob\<close> that did not reach the continuation.\<close>

definition passThrough :: "'a outcome \<Rightarrow> 'b outcome" where
  "passThrough r = (case r of Thrown e \<Rightarrow> Thrown e | Logged e \<Rightarrow> Logged e | _ \<Rightarrow> NoEffect)"

text \<open>The arguments \<open>start\<close> and \<open>end\<close> of \<open>getBinary\<close> by their \<open>typeof\<close>:
  a function, a number, or anything else (\<open>undefined\<close> when omitted).\<close>

datatype jsarg = Fun | Number int | Other

definition startBeyondEnd :: "nat \<Rightarrow> error" where
  "startBeyondEnd n = Error (''DataMan.getBinary: start position beyond end of data ('' @ showNat n @ '')'')"

text \<open>\<open>read(blob)\<close>, the inner function of \<open>getBinary\<close>, after the instance
  \<open>self\<close> and the trace \<open>t\<close> that \<open>getBlob\<close> left.\<close>

definition read :: "host \<Rightarrow> bool \<Rightarrow> dataMan \<Rightarrow> io list \<Rightarrow> jsblob \<Rightarrow> (byte list) result" where
  "read h user self t blob =
     (if \<not> hasFileReader h then
        (self, t, invoke user (Inl (Error ''Browser does not support FileReader'')))
      else
        (case readError h blob of
           Some err \<Rightarrow> (self, t @ [ReadAsArrayBuffer blob], invoke user (Inl err))
         | None \<Rightarrow> (self, t @ [ReadAsArrayBuffer blob], invoke user (Inr (bytes blob)))))"

text \<open>\<open>getBinary(start, end, callback)\<close>; \<open>cb\<close> tells whether the third argument
  was passed. A function in the first position becomes the callback.\<close>

definition dataManGetBinary ::
  "host \<Rightarrow> dataMan \<Rightarrow> jsarg \<Rightarrow> jsarg \<Rightarrow> bool \<Rightarrow> (byte list) result" where
  "dataManGetBinary h self start end cb =
     (let user = (start = Fun \<or> cb) in
      case dataManGetBlob h self of
        (self', t, Callback (Inl error)) \<Rightarrow> (self', t, invoke user (Inl error))
      | (self', t, Callback (Inr blob)) \<Rightarrow>
          (case (start, end) of
             (Number st, Number en) \<Rightarrow>
               (let size = blobSize blob in
                if st \<ge> int size then (self', t, invoke user (Inl (startBeyondEnd size)))
                else
                  (let en' = min (int size) en in
                   if \<not> hasSlice h then
                     (self', t, invoke user (Inl (Error ''Browser does not support File.slice'')))
                   else read h user self' t (blobSlice blob st en' (self_type self'))))
           | _ \<Rightarrow> read h user self' t blob)
      | (self', t, r) \<Rightarrow> (self', t, passThrough r))"

definition dataManSaveAs :: "host \<Rightarrow> dataMan \<Rightarrow> string option \<Rightarrow> unit result" where
  "dataManSaveAs h self filename =
     (if \<not> hasWindow h then
        (self, [], Thrown (Error ''window must be defined to use saveLocal''))
      else
        (case dataManGetBlob h self of
           (self', t, Callback (Inl error)) \<Rightarrow> (self', t, Thrown error)
         | (self', t, Callback (Inr blob)) \<Rightarrow>
             (if hasSaveAs h then (self', t @ [WindowSaveAs blob filename], NoEffect)
              else (self', t, Thrown (TypeError ''window.saveAs is not a function'')))
         | (self', t, r) \<Rightarrow> (self', t, passThrough r)))"

text \<open>\<open>getDataUri(callback)\<close>; \<open>cb\<close> tells whether \<open>callback\<close> is a function.\<close>

definition dataManGetDataUri :: "host \<Rightarrow> dataMan \<Rightarrow> bool \<Rightarrow> string result" where
  "dataManGetDataUri h self cb =
     (if \<not> cb then (self, [], Thrown (Error ''getDataUri requires callback function''))
      else if \<not> hasFileReader h then
        (self, [], Callback (Inl (Error ''Browser does not support FileReader'')))
      else
        (case dataManGetBlob h self of
           (self', t, Callback (Inl error)) \<Rightarrow> (self', t, Callback (Inl error))
         | (self', t, Callback (Inr blob)) \<Rightarrow>
             (case readError h blob of
                Some err \<Rightarrow> (self', t @ [ReadAsDataURL blob], Callback (Inl err))
              | None \<Rightarrow>
                  (self'\<lparr>self_dataUri := Some (dataURLOf blob)\<rparr>,
                   t @ [ReadAsDataURL blob], Callback (Inr (dataURLOf blob))))
         | (self', t, r) \<Rightarrow> (self', t, passThrough r)))"

text \<open>\<open>size(callback)\<close>; \<open>cb\<close> tells whether \<open>callback\<close> was passed.\<close>

definition dataManSize :: "host \<Rightarrow> dataMan \<Rightarrow> bool \<Rightarrow> nat result" where
  "dataManSize h self cb =
     (if \<not> cb then
        (self, [], Thrown (Error ''On the client, DataMan.size requires a callback''))
      else
        (case self_size self of
           Some n \<Rightarrow> (self, [], Returned n)
         | None \<Rightarrow>
             (case dataManGetBlob h self of
                (self', t, Callback (Inl error)) \<Rightarrow> (self', t, Callback (Inl error))
              | (self', t, Callback (Inr blob)) \<Rightarrow>
                  (self'\<lparr>self_size := Some (blobSize blob)\<rparr>, t, Callback (Inr (blobSize blob)))
              | (self', t, r) \<Rightarrow> (self', t, passThrough r))))"

section \<open>The server: DataMan.Buffer\<close>

text \<open>The instance: \<open>self.buffer\<close>, \<open>self._type\<close>, \<open>self.dataUri\<close> and
  \<open>self._size\<close>. Its methods take a callback that is a function.\<close>

record dataManBuffer =
  buffer :: "byte list"
  buf_type :: "string option"
  buf_dataUri :: "string option"
  buf_size :: "nat option"

type_synonym 'a bresult = "dataManBuffer \<times> io list \<times> 'a outcome"

definition DataManBuffer :: "byte list \<Rightarrow> string option \<Rightarrow> dataManBuffer" where
  "DataManBuffer buf typ =
     \<lparr>buffer = buf, buf_type = typ, buf_dataUri = None, buf_size = None\<rparr>"

definition dataManBufferGetBuffer :: "dataManBuffer \<Rightarrow> (byte list) bresult" where
  "dataManBufferGetBuffer self = (self, [], Callback (Inr (buffer self)))"

definition dataManBufferGetDataUri :: "dataManBuffer \<Rightarrow> string bresult" where
  "dataManBufferGetDataUri self =
     (if truthy (buf_dataUri self) then (self, [], Callback (Inr (the (buf_dataUri self))))
      else if \<not> truthy (buf_type self) then
        (self, [], Callback (Inl (Error ''DataMan.getDataUri couldn't get a contentType'')))
      else
        (let uri = ''data:'' @ the (buf_type self) @ '';base64,'' @ base64 (buffer self)
         in (self\<lparr>buf_dataUri := Some uri\<rparr>, [], Callback (Inr uri))))"

text \<open>
  \<open>createReadStream\<close> evaluates \<open>sbs(self.buffer)\<close>. The function has no parameter
  and declares no variable, and the file declares only \<open>sbs\<close>, so \<open>self\<close> is looked
  up among the globals of the host: without such a global the lookup is a
  \<open>ReferenceError\<close>, with one the stream is made from that object's \<open>buffer\<close>.
  The instance (\<open>this\<close>) is not read.
\<close>

datatype stream = BufferStream "byte list option"

definition dataManBufferCreateReadStream :: "host \<Rightarrow> dataManBuffer \<Rightarrow> error + stream" where
  "dataManBufferCreateReadStream h this =
     (case globalSelf h of
        None \<Rightarrow> Inl (ReferenceError ''self'')
      | Some buf \<Rightarrow> Inr (BufferStream buf))"

definition dataManBufferSize :: "dataManBuffer \<Rightarrow> nat bresult" where
  "dataManBufferSize self =
     (case buf_size self of
        Some n \<Rightarrow> (self, [], Callback (Inr n))
      | None \<Rightarrow>
          (self\<lparr>buf_size := Some (length (buffer self))\<rparr>, [],
           Callback (Inr (length (buffer self)))))"

definition dataManBufferType :: "dataManBuffer \<Rightarrow> string option" where
  "dataManBufferType this = buf_type this"

section \<open>Example hosts and instances\<close>

text \<open>\<open>typeof a === "number"\<close>.\<close>

definition isNumber :: "jsarg \<Rightarrow> bool" where
  "isNumber a = (case a of Number _ \<Rightarrow> True | _ \<Rightarrow> False)"

text \<open>The bytes of the text \<open>Hello\<close>, and ten bytes \<open>0..9\<close>.\<close>

definition hello :: "byte list" where
  "hello = [72, 101, 108, 108, 111]"

definition tenBytes :: "byte list" where
  "tenBytes = [0, 1, 2, 3, 4, 5, 6, 7, 8, 9]"

text \<open>A browser with every capability whose network is down: each GET ends in
  \<open>onerror\<close>. Its global \<open>self\<close> is the window, which has no \<open>buffer\<close>.\<close>

definition offlineBrowser :: host where
  "offlineBrowser =
     \<lparr>hasFile = True, hasBlob = True, hasArrayBuffer = True, hasFileReader = True,
      hasSlice = True, hasWindow = True, hasSaveAs = True, hasAtob = True,
      hasXMLHttpRequest = True, xhrOpen = (\<lambda>u. None),
      xhr = (\<lambda>u. Inl (XhrFailure u)), readError = (\<lambda>b. None), globalSelf = Some None\<rparr>"


text \<open>A Node server: no browser global, and no global \<open>self\<close>.\<close>

definition nodeServer :: host where
  "nodeServer =
     \<lparr>hasFile = False, hasBlob = False, hasArrayBuffer = True, hasFileReader = False,
      hasSlice = False, hasWindow = False, hasSaveAs = False, hasAtob = False,
      hasXMLHttpRequest = False, xhrOpen = (\<lambda>u. None),
      xhr = (\<lambda>u. Inl (XhrFailure u)), readError = (\<lambda>b. None), globalSelf = None\<rparr>"

text \<open>A Blob holding \<open>Hello\<close> as \<open>text/plain\<close>, and the instance the constructor
  makes of it.\<close>

definition helloBlob :: jsobject where
  "helloBlob =
     \<lparr>instanceofFile = False, instanceofBlob = True, instanceofArrayBuffer = False,
      ejsonBinary = False, content = hello, otype = ''text/plain''\<rparr>"

definition helloInstance :: dataMan where
  "helloInstance =
     newInstance\<lparr>self_blob := Some (asBlob helloBlob), self_type := Some ''text/plain''\<rparr>"

text \<open>A Blob of ten bytes with no declared type, and its instance.\<close>

definition tenBlob :: jsobject where
  "tenBlob =
     \<lparr>instanceofFile = False, instanceofBlob = True, instanceofArrayBuffer = False,
      ejsonBinary = False, content = tenBytes, otype = []\<rparr>"

definition tenInstance :: dataMan where
  "tenInstance = newInstance\<lparr>self_blob := Some (asBlob tenBlob), self_type := Some []\<rparr>"

text \<open>An instance made of a URL, and one made of a data URI that carries a
  \<open>charset\<close> parameter.\<close>

definition urlInstance :: dataMan where
  "urlInstance = newInstance\<lparr>self_url := Some ''http://example.com/a.bin''\<rparr>"

definition charsetUri :: string where
  "charsetUri = ''data:text/plain;charset=utf-8;base64,SGVsbG8=''"

definition charsetInstance :: dataMan where
  "charsetInstance =
     newInstance\<lparr>self_dataUri := Some charsetUri, self_type := Some ''text/plain''\<rparr>"

text \<open>The instance the constructor makes of a data URI that has no comma, hence no
  payload.\<close>

definition malformedInstance :: dataMan where
  "malformedInstance =
     newInstance\<lparr>self_dataUri := Some ''data:text/plain;base64'', self_type := Some ''text/plain''\<rparr>"

text \<open>A Blob that \<open>EJSON.isBinary\<close> also accepts, a \<open>Uint8Array\<close> holding
  \<open>Hello\<close>, and an object that no probe of the constructor accepts.\<close>

definition taggedBlob :: jsobject where
  "taggedBlob = helloBlob\<lparr>ejsonBinary := True\<rparr>"

definition helloUint8Array :: jsobject where
  "helloUint8Array =
     \<lparr>instanceofFile = False, instanceofBlob = False, instanceofArrayBuffer = False,
      ejsonBinary = True, content = hello, otype = []\<rparr>"

definition plainObject :: jsobject where
  "plainObject =
     \<lparr>instanceofFile = False, instanceofBlob = False, instanceofArrayBuffer = False,
      ejsonBinary = False, content = [], otype = []\<rparr>"

section \<open>Auxiliary facts\<close>

lemma relIndex_nonneg: "0 \<le> i \<Longrightarrow> relIndex n i = min (nat i) n"
  by (auto simp: relIndex_def)

lemma relIndex_neg: "i < 0 \<Longrightarrow> relIndex n i = nat (int n + i)"
  by (auto simp: relIndex_def)

lemma helloInstance_constructed:
  "DataMan offlineBrowser (Obj helloBlob) None = Inr helloInstance"
  by (simp add: DataMan_def offlineBrowser_def helloBlob_def helloInstance_def)

lemma tenInstance_constructed:
  "DataMan offlineBrowser (Obj tenBlob) None = Inr tenInstance"
  by (simp add: DataMan_def offlineBrowser_def tenBlob_def tenInstance_def)

lemma urlInstance_constructed:
  "DataMan offlineBrowser (Str ''http://example.com/a.bin'') None = Inr urlInstance"
  by (simp add: DataMan_def urlInstance_def newInstance_def sliceList_def relIndex_def)

lemma charsetInstance_constructed:
  "DataMan offlineBrowser (Str charsetUri) None = Inr charsetInstance"
  by (simp add: DataMan_def charsetInstance_def charsetUri_def sliceList_def relIndex_def)

lemma malformedInstance_constructed:
  "DataMan offlineBrowser (Str ''data:text/plain;base64'') None = Inr malformedInstance"
  by (simp add: DataMan_def malformedInstance_def sliceList_def relIndex_def)

lemma malformed_throws:
  "dataManGetBlob offlineBrowser malformedInstance =
     (malformedInstance, [Atob ''undefined''], Thrown InvalidCharacterError)"
  by (simp add: dataManGetBlob_def malformedInstance_def newInstance_def truthy_def
      dataURItoBlob_def atobCalls_def payloadOf_def splitComma1_def atob_def stripPadding_def
      isAsciiSpace_def offlineBrowser_def)

lemma getBlob_open_throws:
  "self_blob self = None \<Longrightarrow> \<not> truthy (self_dataUri self) \<Longrightarrow> truthy (self_url self) \<Longrightarrow>
   hasXMLHttpRequest h \<Longrightarrow> xhrOpen h (the (self_url self)) = Some e \<Longrightarrow>
   dataManGetBlob h self = (self, [], Thrown e)"
  by (simp add: dataManGetBlob_def)

lemma getBlob_cached:
  "self_blob self = Some b \<Longrightarrow> dataManGetBlob h self = (self, [], Callback (Inr b))"
  by (simp add: dataManGetBlob_def)

lemma getBlob_delivers_cached:
  "dataManGetBlob h self = (self', t, Callback (Inr b)) \<Longrightarrow> self_blob self' = Some b"
  by (auto simp: dataManGetBlob_def split: option.splits if_splits sum.splits)

lemma getBlob_memoized:
  "dataManGetBlob h self = (self', t, Callback (Inr b)) \<Longrightarrow>
   dataManGetBlob h' self' = (self', [], Callback (Inr b))"
  by (rule getBlob_cached [OF getBlob_delivers_cached])

lemma helloDataURL: "dataURLOf (asBlob helloBlob) = ''data:text/plain;base64,SGVsbG8=''"
  by (simp add: dataURLOf_def asBlob_def helloBlob_def hello_def b64char_def b64alphabet_def)

lemma atob_hello: "atob ''SGVsbG8='' = Inr hello"
  by (simp add: atob_def stripPadding_def isAsciiSpace_def b64val_def b64alphabet_def hello_def)

lemma charset_payload: "payloadOf charsetUri = ''SGVsbG8=''"
  by (simp add: payloadOf_def splitComma1_def charsetUri_def)

lemma normalizeType_plain: "normalizeType ''text/plain'' = ''text/plain''"
  by (simp add: normalizeType_def isPrintable_def asciiLower_def)

lemma charset_blob:
  "dataURItoBlob offlineBrowser charsetUri (Some ''text/plain'') = Inr (asBlob helloBlob)"
  using charset_payload atob_hello normalizeType_plain
  by (simp add: dataURItoBlob_def newBlob_def asBlob_def helloBlob_def offlineBrowser_def)

lemma indexOf_append:
  "c \<notin> set xs \<Longrightarrow> indexOf (xs @ c # ys) c = int (length xs)"
  by (induction xs) (auto simp: Let_def)

lemma sliceList_prefix:
  "sliceList (xs @ ys) 0 (int (length xs)) = xs"
  by (simp add: sliceList_def relIndex_def)

lemma sliceList_middle:
  "sliceList (xs @ ys @ zs) (int (length xs)) (int (length xs + length ys)) = ys"
  by (simp add: sliceList_def relIndex_def)

lemma dataUri_mime:
  assumes "CHR '';'' \<notin> set mime"
  shows "sliceList (''data:'' @ mime @ CHR '';'' # rest) 5
           (indexOf (''data:'' @ mime @ CHR '';'' # rest) CHR '';'') = mime"
proof -
  have n: "CHR '';'' \<notin> set (''data:'' @ mime)" using assms by simp
  have i: "indexOf ((''data:'' @ mime) @ CHR '';'' # rest) CHR '';'' = int (length (''data:'' @ mime))"
    by (rule indexOf_append [OF n])
  have "sliceList (''data:'' @ mime @ (CHR '';'' # rest)) (int (length ''data:''))
          (int (length ''data:'' + length mime)) = mime"
    by (rule sliceList_middle)
  then show ?thesis using i by simp
qed

lemma data_prefix: "sliceList (''data:'' @ s) 0 5 = ''data:''"
  using sliceList_prefix [of "''data:''" s] by simp

lemma getBlob_keeps:
  "self_type (fst (dataManGetBlob h self)) = self_type self"
  "self_url (fst (dataManGetBlob h self)) = self_url self"
  "self_dataUri (fst (dataManGetBlob h self)) = self_dataUri self"
  "self_size (fst (dataManGetBlob h self)) = self_size self"
  "self_blob self = Some b \<Longrightarrow> self_blob (fst (dataManGetBlob h self)) = Some b"
  by (simp_all add: dataManGetBlob_def split: option.splits sum.splits)

lemma getBinary_keeps: "fst (dataManGetBinary h self start end cb) = fst (dataManGetBlob h self)"
proof -
  obtain s' t r where g: "dataManGetBlob h self = (s', t, r)"
    by (cases "dataManGetBlob h self") auto
  show ?thesis
  proof (cases r)
    case (Callback x)
    show ?thesis
    proof (cases x)
      case (Inl e)
      with Callback g show ?thesis by (simp add: dataManGetBinary_def)
    next
      case (Inr blob)
      with Callback g show ?thesis
        by (cases start; cases "end")
           (simp_all add: dataManGetBinary_def read_def Let_def split: option.splits)
    qed
  qed (use g in \<open>simp_all add: dataManGetBinary_def\<close>)
qed

lemma saveAs_keeps: "fst (dataManSaveAs h self filename) = (if hasWindow h then fst (dataManGetBlob h self) else self)"
proof -
  obtain s' t r where g: "dataManGetBlob h self = (s', t, r)"
    by (cases "dataManGetBlob h self") auto
  show ?thesis
  proof (cases r)
    case (Callback x)
    with g show ?thesis by (cases x) (simp_all add: dataManSaveAs_def)
  qed (use g in \<open>simp_all add: dataManSaveAs_def\<close>)
qed

lemma size_keeps:
  "self_type (fst (dataManSize h self cb)) = self_type self"
  "self_url (fst (dataManSize h self cb)) = self_url self"
  "self_dataUri (fst (dataManSize h self cb)) = self_dataUri self"
  "self_blob self = Some b \<Longrightarrow> self_blob (fst (dataManSize h self cb)) = Some b"
proof -
  obtain s' t r where g: "dataManGetBlob h self = (s', t, r)"
    by (cases "dataManGetBlob h self") auto
  have k: "self_type s' = self_type self" "self_url s' = self_url self"
    "self_dataUri s' = self_dataUri self"
    "self_blob self = Some b \<Longrightarrow> self_blob s' = Some b"
    using getBlob_keeps [where h = h and self = self] g by simp_all
  have f: "fst (dataManSize h self cb) = self \<or> fst (dataManSize h self cb) = s'
      \<or> (\<exists>n. fst (dataManSize h self cb) = s'\<lparr>self_size := Some n\<rparr>)"
  proof (cases r)
    case (Callback x)
    with g show ?thesis by (cases x) (auto simp add: dataManSize_def split: option.splits)
  qed (use g in \<open>simp_all add: dataManSize_def split: option.splits\<close>)
  show "self_type (fst (dataManSize h self cb)) = self_type self"
    using f k by auto
  show "self_url (fst (dataManSize h self cb)) = self_url self"
    using f k by auto
  show "self_dataUri (fst (dataManSize h self cb)) = self_dataUri self"
    using f k by auto
  show "self_blob self = Some b \<Longrightarrow> self_blob (fst (dataManSize h self cb)) = Some b"
    using f k by auto
qed

lemma getDataUri_keeps:
  "self_type (fst (dataManGetDataUri h self cb)) = self_type self"
  "self_url (fst (dataManGetDataUri h self cb)) = self_url self"
  "self_size (fst (dataManGetDataUri h self cb)) = self_size self"
  "self_blob self = Some b \<Longrightarrow> self_blob (fst (dataManGetDataUri h self cb)) = Some b"
proof -
  obtain s' t r where g: "dataManGetBlob h self = (s', t, r)"
    by (cases "dataManGetBlob h self") auto
  have k: "self_type s' = self_type self" "self_url s' = self_url self"
    "self_size s' = self_size self"
    "self_blob self = Some b \<Longrightarrow> self_blob s' = Some b"
    using getBlob_keeps [where h = h and self = self] g by simp_all
  have f: "fst (dataManGetDataUri h self cb) = self \<or> fst (dataManGetDataUri h self cb) = s'
      \<or> (\<exists>u. fst (dataManGetDataUri h self cb) = s'\<lparr>self_dataUri := Some u\<rparr>)"
  proof (cases r)
    case (Callback x)
    with g show ?thesis by (cases x) (auto simp add: dataManGetDataUri_def split: option.splits)
  qed (use g in \<open>simp_all add: dataManGetDataUri_def\<close>)
  show "self_type (fst (dataManGetDataUri h self cb)) = self_type self"
    using f k by auto
  show "self_url (fst (dataManGetDataUri h self cb)) = self_url self"
    using f k by auto
  show "self_size (fst (dataManGetDataUri h self cb)) = self_size self"
    using f k by auto
  show "self_blob self = Some b \<Longrightarrow> self_blob (fst (dataManGetDataUri h self cb)) = Some b"
    using f k by auto
qed

lemma size_cached_returns:
  "self_size self = Some n \<Longrightarrow> dataManSize h self True = (self, [], Returned n)"
  by (simp add: dataManSize_def)

lemma getDataUri_reads_every_time:
  "dataManGetBlob h self = (self', t, Callback (Inr blob)) \<Longrightarrow> hasFileReader h \<Longrightarrow>
   fst (snd (dataManGetDataUri h self True)) = t @ [ReadAsDataURL blob]"
  by (simp add: dataManGetDataUri_def split: option.splits)

lemma buffer_keeps:
  "buffer (fst (dataManBufferGetDataUri self)) = buffer self"
  "buf_type (fst (dataManBufferGetDataUri self)) = buf_type self"
  "buffer (fst (dataManBufferSize self)) = buffer self"
  "buf_type (fst (dataManBufferSize self)) = buf_type self"
  "fst (dataManBufferGetBuffer self) = self"
  by (simp_all add: dataManBufferGetDataUri_def dataManBufferSize_def dataManBufferGetBuffer_def
      Let_def split: option.splits)

section \<open>getBinary on a byte range\<close>

text \<open>
  Claim C1, as amended. Let \<open>getBlob\<close> deliver a blob of \<open>totalSize\<close> bytes, let the
  host have a slicing primitive and a FileReader, and let the read of the slice load.
  For \<open>0 \<le> start < totalSize\<close> and \<open>end \<ge> 0\<close>, \<open>getBinary(start, end, cb)\<close> passes to
  the callback the bytes of the data from index \<open>start\<close> up to, and excluding,
  \<open>min(end, totalSize)\<close>: exactly \<open>min(end, totalSize) - start\<close> bytes when
  \<open>start \<le> end\<close>, and none when \<open>end < start\<close>. A negative \<open>end\<close> is counted from the
  end of the data by the slicing primitive: the bytes from \<open>start\<close> up to
  \<open>totalSize + end\<close> are delivered.
\<close>

theorem getBinary_range:
  assumes "dataManGetBlob h self = (self', t, Callback (Inr blob))"
    and "0 \<le> start" and "start < int (blobSize blob)"
    and "hasSlice h" and "hasFileReader h"
    and "readError h (blobSlice blob start (min (int (blobSize blob)) end) (self_type self')) = None"
  shows "(0 \<le> end \<longrightarrow>
           snd (snd (dataManGetBinary h self (Number start) (Number end) True)) =
             Callback (Inr (take (nat (min end (int (blobSize blob)) - start))
                                 (drop (nat start) (bytes blob))))
           \<and> (start \<le> end \<longrightarrow>
                int (length (take (nat (min end (int (blobSize blob)) - start))
                                  (drop (nat start) (bytes blob))))
                  = min end (int (blobSize blob)) - start))
       \<and> (end < 0 \<longrightarrow>
           snd (snd (dataManGetBinary h self (Number start) (Number end) True)) =
             Callback (Inr (take (nat (int (blobSize blob) + end - start))
                                 (drop (nat start) (bytes blob)))))"
proof -
  let ?n = "blobSize blob"
  let ?en = "min (int ?n) end"
  have run: "snd (snd (dataManGetBinary h self (Number start) (Number end) True)) =
      Callback (Inr (sliceList (bytes blob) start ?en))"
    using assms
    by (simp add: dataManGetBinary_def read_def invoke_def blobSlice_def newBlob_def Let_def)
  have pos: "0 \<le> end \<Longrightarrow> sliceList (bytes blob) start ?en =
      take (nat (min end (int ?n) - start)) (drop (nat start) (bytes blob))"
    using assms(2,3)
    by (auto simp add: sliceList_def relIndex_nonneg blobSize_def Let_def min_def
        nat_diff_distrib')
  have sub: "nat (int ?n + end) - nat start = nat (int ?n + end - start)"
    using assms(2) by linarith
  have neg: "end < 0 \<Longrightarrow> sliceList (bytes blob) start ?en =
      take (nat (int ?n + end - start)) (drop (nat start) (bytes blob))"
    using assms(2,3) sub
    by (auto simp add: sliceList_def relIndex_nonneg relIndex_neg blobSize_def Let_def min_def)
  have len: "start \<le> end \<Longrightarrow>
      int (length (take (nat (min end (int ?n) - start)) (drop (nat start) (bytes blob))))
        = min end (int ?n) - start"
    using assms(2,3) by (auto simp: blobSize_def min_def)
  show ?thesis using run pos neg len by simp
qed

theorem getBinary_range_witness:
  "dataManGetBlob offlineBrowser tenInstance = (tenInstance, [], Callback (Inr (asBlob tenBlob)))
   \<and> (0::int) \<le> 3 \<and> 3 < int (blobSize (asBlob tenBlob))
   \<and> hasSlice offlineBrowser \<and> hasFileReader offlineBrowser
   \<and> readError offlineBrowser
        (blobSlice (asBlob tenBlob) 3 (min (int (blobSize (asBlob tenBlob))) 8)
           (self_type tenInstance)) = None
   \<and> (3::int) \<le> 8
   \<and> snd (snd (dataManGetBinary offlineBrowser tenInstance (Number 3) (Number 8) True)) =
        Callback (Inr [3, 4, 5, 6, 7])
   \<and> readError offlineBrowser
        (blobSlice (asBlob tenBlob) 3 (min (int (blobSize (asBlob tenBlob))) (- 2))
           (self_type tenInstance)) = None
   \<and> (- 2 :: int) < 0
   \<and> snd (snd (dataManGetBinary offlineBrowser tenInstance (Number 3) (Number (- 2)) True)) =
        Callback (Inr [3, 4, 5, 6, 7])"
proof -
  have b: "dataManGetBlob offlineBrowser tenInstance =
      (tenInstance, [], Callback (Inr (asBlob tenBlob)))"
    by (simp add: dataManGetBlob_def tenInstance_def newInstance_def)
  have s: "(3::int) < int (blobSize (asBlob tenBlob))"
    by (simp add: blobSize_def asBlob_def tenBlob_def tenBytes_def)
  have r: "readError offlineBrowser
      (blobSlice (asBlob tenBlob) 3 (min (int (blobSize (asBlob tenBlob))) 8)
         (self_type tenInstance)) = None"
    "readError offlineBrowser
      (blobSlice (asBlob tenBlob) 3 (min (int (blobSize (asBlob tenBlob))) (- 2))
         (self_type tenInstance)) = None"
    by (simp_all add: offlineBrowser_def)
  have c: "hasSlice offlineBrowser" "hasFileReader offlineBrowser"
    by (simp_all add: offlineBrowser_def)
  show ?thesis
    using getBinary_range [OF b _ s c r(1)] getBinary_range [OF b _ s c r(2)] b s r c
    by (simp add: blobSize_def asBlob_def tenBlob_def tenBytes_def)
qed

text \<open>
  The claim as stated fails where \<open>end\<close> is below \<open>start\<close>. On the five bytes of
  \<open>Hello\<close>, \<open>getBinary(2, -1, cb)\<close> delivers the two bytes at indices 2 and 3, where
  the claim promises \<open>min(-1, 5) - 2 = -3\<close> bytes; and \<open>getBinary(3, 1, cb)\<close> delivers
  no byte, where the claim promises \<open>min(1, 5) - 3 = -2\<close>.
\<close>

theorem getBinary_range_counterexample:
  "dataManGetBlob offlineBrowser helloInstance =
     (helloInstance, [], Callback (Inr (asBlob helloBlob)))
   \<and> blobSize (asBlob helloBlob) = 5
   \<and> snd (snd (dataManGetBinary offlineBrowser helloInstance (Number 2) (Number (- 1)) True)) =
        Callback (Inr [108, 108])
   \<and> int (length [108, 108 :: byte]) \<noteq> min (- 1) 5 - 2
   \<and> snd (snd (dataManGetBinary offlineBrowser helloInstance (Number 3) (Number 1) True)) =
        Callback (Inr [])
   \<and> int (length ([] :: byte list)) \<noteq> min 1 5 - 3"
  by (simp add: dataManGetBinary_def dataManGetBlob_def helloInstance_def newInstance_def
      blobSize_def asBlob_def helloBlob_def hello_def offlineBrowser_def read_def invoke_def
      blobSlice_def newBlob_def sliceList_def relIndex_def Let_def)

text \<open>
  Claim C2. When \<open>getBlob\<close> delivers a blob of \<open>totalSize\<close> bytes and
  \<open>start \<ge> totalSize\<close>, \<open>getBinary(start, end, cb)\<close> calls the callback with the
  error \<open>start position beyond end of data\<close> and with nothing else: the instance and
  the trace are those \<open>getBlob\<close> left, so no slice is taken and no read is started, and
  no data reaches the callback.
\<close>

theorem getBinary_start_beyond:
  assumes "dataManGetBlob h self = (self', t, Callback (Inr blob))"
    and "int (blobSize blob) \<le> start"
  shows "dataManGetBinary h self (Number start) (Number end) True =
           (self', t, Callback (Inl (startBeyondEnd (blobSize blob))))
         \<and> (\<forall>data. snd (snd (dataManGetBinary h self (Number start) (Number end) True))
                \<noteq> Callback (Inr data))"
  using assms by (simp add: dataManGetBinary_def invoke_def Let_def)

theorem getBinary_start_beyond_witness:
  "dataManGetBlob offlineBrowser tenInstance = (tenInstance, [], Callback (Inr (asBlob tenBlob)))
   \<and> int (blobSize (asBlob tenBlob)) \<le> 12
   \<and> dataManGetBinary offlineBrowser tenInstance (Number 12) (Number 20) True =
        (tenInstance, [],
         Callback (Inl (Error ''DataMan.getBinary: start position beyond end of data (10)'')))"
proof -
  have b: "dataManGetBlob offlineBrowser tenInstance =
      (tenInstance, [], Callback (Inr (asBlob tenBlob)))"
    by (simp add: dataManGetBlob_def tenInstance_def newInstance_def)
  have s: "int (blobSize (asBlob tenBlob)) \<le> 12"
    by (simp add: blobSize_def asBlob_def tenBlob_def tenBytes_def)
  have n: "startBeyondEnd (blobSize (asBlob tenBlob)) =
      Error ''DataMan.getBinary: start position beyond end of data (10)''"
    by (simp add: startBeyondEnd_def blobSize_def asBlob_def tenBlob_def tenBytes_def)
  show ?thesis
    using getBinary_start_beyond [OF b s, of 20] b s n by simp
qed

text \<open>
  Claim C10, as amended. With a number as \<open>start\<close> and an \<open>end\<close> that is not a
  number, \<open>getBinary\<close> does not enter the ranged branch: the call is the whole-data
  call, whatever \<open>start\<close> is, so nothing is clamped and no range error is produced, also
  for \<open>start \<ge> totalSize\<close>. When \<open>getBlob\<close> delivers a blob, the host has a FileReader
  and the read loads, a callback passed as third argument receives all the bytes of the
  blob. Without a third argument (\<open>end\<close> omitted, or the callback passed in second
  position) the same bytes are read and handed to the default callback, which drops
  them: no function of the caller is called.
\<close>

theorem getBinary_without_end:
  "(dataManGetBlob h self = (self', t, Callback (Inr blob)) \<and> \<not> isNumber end
      \<and> hasFileReader h \<and> readError h blob = None \<longrightarrow>
      dataManGetBinary h self (Number start) end True =
        (self', t @ [ReadAsArrayBuffer blob], Callback (Inr (bytes blob)))
    \<and> dataManGetBinary h self (Number start) end False =
        (self', t @ [ReadAsArrayBuffer blob], NoEffect))
   \<and> (\<not> isNumber end \<longrightarrow>
      dataManGetBinary h self (Number start) end cb = dataManGetBinary h self Other end cb)"
proof -
  have p1: "dataManGetBlob h self = (self', t, Callback (Inr blob)) \<and> \<not> isNumber end
      \<and> hasFileReader h \<and> readError h blob = None \<longrightarrow>
      dataManGetBinary h self (Number start) end True =
        (self', t @ [ReadAsArrayBuffer blob], Callback (Inr (bytes blob)))
    \<and> dataManGetBinary h self (Number start) end False =
        (self', t @ [ReadAsArrayBuffer blob], NoEffect)"
    by (cases "end")
       (simp_all add: dataManGetBinary_def read_def invoke_def defaultCallback_def isNumber_def)
  have p2: "\<not> isNumber end \<longrightarrow>
      dataManGetBinary h self (Number start) end cb = dataManGetBinary h self Other end cb"
    by (cases "end") (simp_all add: dataManGetBinary_def isNumber_def)
  show ?thesis by (rule conjI [OF p1 p2])
qed

theorem getBinary_without_end_witness:
  "dataManGetBlob offlineBrowser helloInstance =
     (helloInstance, [], Callback (Inr (asBlob helloBlob)))
   \<and> \<not> isNumber Other \<and> hasFileReader offlineBrowser
   \<and> readError offlineBrowser (asBlob helloBlob) = None
   \<and> int (blobSize (asBlob helloBlob)) \<le> 7
   \<and> dataManGetBinary offlineBrowser helloInstance (Number 7) Other True =
       (helloInstance, [ReadAsArrayBuffer (asBlob helloBlob)], Callback (Inr hello))
   \<and> dataManGetBinary offlineBrowser helloInstance (Number 7) Other False =
       (helloInstance, [ReadAsArrayBuffer (asBlob helloBlob)], NoEffect)"
proof -
  have b: "dataManGetBlob offlineBrowser helloInstance =
      (helloInstance, [], Callback (Inr (asBlob helloBlob)))"
    by (simp add: dataManGetBlob_def helloInstance_def newInstance_def)
  have c: "\<not> isNumber Other" "hasFileReader offlineBrowser"
    "readError offlineBrowser (asBlob helloBlob) = None"
    "int (blobSize (asBlob helloBlob)) \<le> 7" "bytes (asBlob helloBlob) = hello"
    by (simp_all add: isNumber_def offlineBrowser_def blobSize_def asBlob_def helloBlob_def hello_def)
  show ?thesis
    using getBinary_without_end [of offlineBrowser helloInstance helloInstance "[]"
        "asBlob helloBlob" Other 7, THEN conjunct1] b c
    by simp
qed

text \<open>
  The claim as stated fails where the callback is not the third argument. On the five
  bytes of \<open>Hello\<close>, \<open>getBinary(7, cb)\<close> takes \<open>cb\<close> for \<open>end\<close>, reads the whole blob
  and gives the bytes to the default callback: \<open>cb\<close> is never called. The same holds
  for \<open>getBinary(7)\<close>.
\<close>

theorem getBinary_without_end_counterexample:
  "DataMan offlineBrowser (Obj helloBlob) None = Inr helloInstance
   \<and> dataManGetBinary offlineBrowser helloInstance (Number 7) Fun False =
       (helloInstance, [ReadAsArrayBuffer (asBlob helloBlob)], NoEffect)
   \<and> dataManGetBinary offlineBrowser helloInstance (Number 7) Other False =
       (helloInstance, [ReadAsArrayBuffer (asBlob helloBlob)], NoEffect)"
  by (simp add: DataMan_def dataManGetBinary_def dataManGetBlob_def helloInstance_def
      helloBlob_def newInstance_def offlineBrowser_def read_def invoke_def defaultCallback_def)

section \<open>Memoization\<close>

text \<open>
  Claim C3, on the code. On the client instance made of the Blob \<open>Hello\<close>, the first
  \<open>size(cb)\<close> calls \<open>cb(null, 5)\<close> and stores \<open>_size = 5\<close>; the second \<open>size(cb)\<close>
  performs no I/O and returns \<open>5\<close>, but it never calls \<open>cb\<close>. On the buffer variant
  both calls call \<open>cb(null, 5)\<close>, without I/O.
\<close>

theorem size_cached_skips_callback:
  "dataManSize offlineBrowser helloInstance True =
     (helloInstance\<lparr>self_size := Some 5\<rparr>, [], Callback (Inr 5))
   \<and> dataManSize offlineBrowser (helloInstance\<lparr>self_size := Some 5\<rparr>) True =
     (helloInstance\<lparr>self_size := Some 5\<rparr>, [], Returned 5)
   \<and> dataManBufferSize (DataManBuffer hello (Some ''text/plain'')) =
     ((DataManBuffer hello (Some ''text/plain''))\<lparr>buf_size := Some 5\<rparr>, [], Callback (Inr 5))
   \<and> dataManBufferSize ((DataManBuffer hello (Some ''text/plain''))\<lparr>buf_size := Some 5\<rparr>) =
     ((DataManBuffer hello (Some ''text/plain''))\<lparr>buf_size := Some 5\<rparr>, [], Callback (Inr 5))"
  by (simp add: dataManSize_def dataManGetBlob_def helloInstance_def newInstance_def
      blobSize_def asBlob_def helloBlob_def hello_def dataManBufferSize_def DataManBuffer_def)

text \<open>
  Claim C4, on the code. On the client instance made of the Blob \<open>Hello\<close>, the first
  \<open>getDataUri(cb)\<close> reads the blob with \<open>readAsDataURL\<close>, stores the result in
  \<open>self.dataUri\<close> and delivers it. The second \<open>getDataUri(cb)\<close>, on the instance the
  first one left, does not look at \<open>self.dataUri\<close>: it runs \<open>readAsDataURL\<close> on the
  blob again.
\<close>

theorem getDataUri_converts_again:
  "dataManGetDataUri offlineBrowser helloInstance True =
     (helloInstance\<lparr>self_dataUri := Some ''data:text/plain;base64,SGVsbG8=''\<rparr>,
      [ReadAsDataURL (asBlob helloBlob)],
      Callback (Inr ''data:text/plain;base64,SGVsbG8=''))
   \<and> dataManGetDataUri offlineBrowser
        (helloInstance\<lparr>self_dataUri := Some ''data:text/plain;base64,SGVsbG8=''\<rparr>) True =
     (helloInstance\<lparr>self_dataUri := Some ''data:text/plain;base64,SGVsbG8=''\<rparr>,
      [ReadAsDataURL (asBlob helloBlob)],
      Callback (Inr ''data:text/plain;base64,SGVsbG8=''))"
  by (simp add: dataManGetDataUri_def dataManGetBlob_def helloInstance_def newInstance_def
      offlineBrowser_def helloDataURL)

section \<open>The source payload\<close>

text \<open>
  Claim C8, on the code. The constructor stores the data URI
  \<open>data:text/plain;charset=utf-8;base64,SGVsbG8=\<close> in \<open>self.dataUri\<close>. One
  \<open>getDataUri(cb)\<close> decodes it into a blob, reads the blob back with
  \<open>readAsDataURL\<close> and assigns the result, \<open>data:text/plain;base64,SGVsbG8=\<close>, to
  \<open>self.dataUri\<close>: the string given at construction is replaced.
\<close>

theorem getDataUri_overwrites_source:
  "DataMan offlineBrowser (Str charsetUri) None = Inr charsetInstance
   \<and> self_dataUri charsetInstance = Some ''data:text/plain;charset=utf-8;base64,SGVsbG8=''
   \<and> dataManGetDataUri offlineBrowser charsetInstance True =
       (charsetInstance\<lparr>self_blob := Some (asBlob helloBlob),
                         self_dataUri := Some ''data:text/plain;base64,SGVsbG8=''\<rparr>,
        [Atob ''SGVsbG8='', ReadAsDataURL (asBlob helloBlob)],
        Callback (Inr ''data:text/plain;base64,SGVsbG8=''))
   \<and> self_dataUri (fst (dataManGetDataUri offlineBrowser charsetInstance True))
       \<noteq> self_dataUri charsetInstance"
proof -
  have c: "DataMan offlineBrowser (Str charsetUri) None = Inr charsetInstance"
    by (simp add: DataMan_def charsetInstance_def charsetUri_def sliceList_def relIndex_def)
  have d: "self_dataUri charsetInstance = Some ''data:text/plain;charset=utf-8;base64,SGVsbG8=''"
    by (simp add: charsetInstance_def charsetUri_def)
  have g: "dataManGetBlob offlineBrowser charsetInstance =
      (charsetInstance\<lparr>self_blob := Some (asBlob helloBlob)\<rparr>, [Atob ''SGVsbG8=''],
       Callback (Inr (asBlob helloBlob)))"
    using charset_blob charset_payload
    by (simp add: dataManGetBlob_def atobCalls_def charsetInstance_def newInstance_def truthy_def
        charsetUri_def offlineBrowser_def)
  have r: "dataManGetDataUri offlineBrowser charsetInstance True =
       (charsetInstance\<lparr>self_blob := Some (asBlob helloBlob),
                         self_dataUri := Some ''data:text/plain;base64,SGVsbG8=''\<rparr>,
        [Atob ''SGVsbG8='', ReadAsDataURL (asBlob helloBlob)],
        Callback (Inr ''data:text/plain;base64,SGVsbG8=''))"
    using g helloDataURL by (simp add: dataManGetDataUri_def offlineBrowser_def)
  show ?thesis using c d r by simp
qed

section \<open>Faults after a suspension\<close>




section \<open>Classification by the constructor\<close>

text \<open>
  Claim C6. The constructor classifies its input in the order of the source. An object
  that is a File or a Blob is stored as the blob itself with its own type, before the
  byte-array test is reached (so also when \<open>EJSON.isBinary\<close> accepts it); any other
  \<open>ArrayBuffer\<close> or binary value is wrapped in a new Blob with the type hint, or
  faults when the host has no Blob. A string \<open>data:\<close> followed by \<open>mime\<close>, a
  semicolon and anything is stored as data URI with \<open>mimeType = mime\<close> (\<open>text/plain\<close>
  for \<open>data:text/plain;base64,SGVsbG8=\<close>), and every string that starts with
  \<open>data:\<close> is stored as data URI, typed by \<open>slice(5, indexOf(';'))\<close>; a string that
  does not start with
  \<open>data:\<close> and starts with \<open>http:\<close> or \<open>https:\<close> is stored as URL with the type
  hint; any other string throws the unrecognized-string error, and any other value
  throws the unsupported-data error. Each fault is the result of the constructor call
  itself.
\<close>

theorem constructor_classification:
  "(hasFile h \<and> instanceofFile ob \<or> hasBlob h \<and> instanceofBlob ob \<longrightarrow>
      DataMan h (Obj ob) typ =
        Inr (newInstance\<lparr>self_blob := Some (asBlob ob), self_type := Some (otype ob)\<rparr>))
   \<and> (\<not> (hasFile h \<and> instanceofFile ob) \<and> \<not> (hasBlob h \<and> instanceofBlob ob)
        \<and> (hasArrayBuffer h \<and> instanceofArrayBuffer ob \<or> ejsonBinary ob) \<longrightarrow>
      DataMan h (Obj ob) typ =
        (if hasBlob h
         then Inr (newInstance\<lparr>self_blob := Some (newBlob (content ob) typ), self_type := typ\<rparr>)
         else Inl (Error ''Browser must support Blobs to handle an ArrayBuffer or Uint8Array'')))
   \<and> (CHR '';'' \<notin> set mime \<longrightarrow>
      DataMan h (Str (''data:'' @ mime @ CHR '';'' # rest)) typ =
        Inr (newInstance\<lparr>self_dataUri := Some (''data:'' @ mime @ CHR '';'' # rest),
                          self_type := Some mime\<rparr>))
   \<and> DataMan h (Str ''data:text/plain;base64,SGVsbG8='') typ =
        Inr (newInstance\<lparr>self_dataUri := Some ''data:text/plain;base64,SGVsbG8='',
                          self_type := Some ''text/plain''\<rparr>)
   \<and> (sliceList d 0 5 = ''data:'' \<longrightarrow>
      DataMan h (Str d) typ =
        Inr (newInstance\<lparr>self_dataUri := Some d,
                          self_type := Some (sliceList d 5 (indexOf d CHR '';''))\<rparr>))
   \<and> (sliceList s 0 5 \<noteq> ''data:'' \<and> (sliceList s 0 5 = ''http:'' \<or> sliceList s 0 6 = ''https:'') \<longrightarrow>
      DataMan h (Str s) typ = Inr (newInstance\<lparr>self_url := Some s, self_type := typ\<rparr>))
   \<and> (sliceList s 0 5 \<noteq> ''data:'' \<and> sliceList s 0 5 \<noteq> ''http:'' \<and> sliceList s 0 6 \<noteq> ''https:'' \<longrightarrow>
      DataMan h (Str s) typ =
        Inl (Error ''DataMan constructor received unrecognized data string''))
   \<and> (\<not> (hasFile h \<and> instanceofFile ob) \<and> \<not> (hasBlob h \<and> instanceofBlob ob)
        \<and> \<not> (hasArrayBuffer h \<and> instanceofArrayBuffer ob) \<and> \<not> ejsonBinary ob \<longrightarrow>
      DataMan h (Obj ob) typ =
        Inl (Error ''DataMan constructor received data that it doesn't support''))
   \<and> DataMan h (Num n) typ =
        Inl (Error ''DataMan constructor received data that it doesn't support'')
   \<and> DataMan h Undefined typ =
        Inl (Error ''DataMan constructor received data that it doesn't support'')"
proof -
  have p1: "hasFile h \<and> instanceofFile ob \<or> hasBlob h \<and> instanceofBlob ob \<longrightarrow>
      DataMan h (Obj ob) typ =
        Inr (newInstance\<lparr>self_blob := Some (asBlob ob), self_type := Some (otype ob)\<rparr>)"
    by (auto simp: DataMan_def)
  have p2: "\<not> (hasFile h \<and> instanceofFile ob) \<and> \<not> (hasBlob h \<and> instanceofBlob ob)
        \<and> (hasArrayBuffer h \<and> instanceofArrayBuffer ob \<or> ejsonBinary ob) \<longrightarrow>
      DataMan h (Obj ob) typ =
        (if hasBlob h
         then Inr (newInstance\<lparr>self_blob := Some (newBlob (content ob) typ), self_type := typ\<rparr>)
         else Inl (Error ''Browser must support Blobs to handle an ArrayBuffer or Uint8Array''))"
    by (auto simp: DataMan_def)
  have p3: "CHR '';'' \<notin> set mime \<longrightarrow>
      DataMan h (Str (''data:'' @ mime @ CHR '';'' # rest)) typ =
        Inr (newInstance\<lparr>self_dataUri := Some (''data:'' @ mime @ CHR '';'' # rest),
                          self_type := Some mime\<rparr>)"
    using dataUri_mime [of mime rest] data_prefix [of "mime @ CHR '';'' # rest"]
    by (simp add: DataMan_def)
  have p4: "DataMan h (Str ''data:text/plain;base64,SGVsbG8='') typ =
        Inr (newInstance\<lparr>self_dataUri := Some ''data:text/plain;base64,SGVsbG8='',
                          self_type := Some ''text/plain''\<rparr>)"
    by (simp add: DataMan_def sliceList_def relIndex_def)
  have p4': "sliceList d 0 5 = ''data:'' \<longrightarrow>
      DataMan h (Str d) typ =
        Inr (newInstance\<lparr>self_dataUri := Some d,
                          self_type := Some (sliceList d 5 (indexOf d CHR '';''))\<rparr>)"
    by (simp add: DataMan_def)
  have p5: "sliceList s 0 5 \<noteq> ''data:'' \<and> (sliceList s 0 5 = ''http:'' \<or> sliceList s 0 6 = ''https:'') \<longrightarrow>
      DataMan h (Str s) typ = Inr (newInstance\<lparr>self_url := Some s, self_type := typ\<rparr>)"
    by (simp add: DataMan_def)
  have p6: "sliceList s 0 5 \<noteq> ''data:'' \<and> sliceList s 0 5 \<noteq> ''http:'' \<and> sliceList s 0 6 \<noteq> ''https:'' \<longrightarrow>
      DataMan h (Str s) typ =
        Inl (Error ''DataMan constructor received unrecognized data string'')"
    by (simp add: DataMan_def)
  have p7: "\<not> (hasFile h \<and> instanceofFile ob) \<and> \<not> (hasBlob h \<and> instanceofBlob ob)
        \<and> \<not> (hasArrayBuffer h \<and> instanceofArrayBuffer ob) \<and> \<not> ejsonBinary ob \<longrightarrow>
      DataMan h (Obj ob) typ =
        Inl (Error ''DataMan constructor received data that it doesn't support'')"
    by (auto simp: DataMan_def)
  have p8: "DataMan h (Num n) typ =
        Inl (Error ''DataMan constructor received data that it doesn't support'')"
    by (simp add: DataMan_def)
  have p9: "DataMan h Undefined typ =
        Inl (Error ''DataMan constructor received data that it doesn't support'')"
    by (simp add: DataMan_def)
  show ?thesis
    by (rule conjI [OF p1 conjI [OF p2 conjI [OF p3 conjI [OF p4 conjI [OF p4' conjI [OF p5
          conjI [OF p6 conjI [OF p7 conjI [OF p8 p9]]]]]]]]])
qed

theorem constructor_classification_witness:
  "(hasFile offlineBrowser \<and> instanceofFile taggedBlob
      \<or> hasBlob offlineBrowser \<and> instanceofBlob taggedBlob)
   \<and> ejsonBinary taggedBlob
   \<and> DataMan offlineBrowser (Obj taggedBlob) (Some ''image/png'') =
        Inr (newInstance\<lparr>self_blob := Some \<lparr>bytes = hello, btype = ''text/plain''\<rparr>,
                          self_type := Some ''text/plain''\<rparr>)
   \<and> CHR '';'' \<notin> set ''text/html''
   \<and> DataMan offlineBrowser (Str ''data:text/html;charset=utf-8,abc'') None =
        Inr (newInstance\<lparr>self_dataUri := Some ''data:text/html;charset=utf-8,abc'',
                          self_type := Some ''text/html''\<rparr>)
   \<and> sliceList ''data:text/plain,hello'' 0 5 = ''data:''
   \<and> DataMan offlineBrowser (Str ''data:text/plain,hello'') (Some ''image/png'') =
        Inr (newInstance\<lparr>self_dataUri := Some ''data:text/plain,hello'',
                          self_type := Some ''text/plain,hell''\<rparr>)
   \<and> sliceList ''https://example.com/a'' 0 5 \<noteq> ''data:''
   \<and> sliceList ''https://example.com/a'' 0 6 = ''https:''
   \<and> DataMan offlineBrowser (Str ''https://example.com/a'') (Some ''image/png'') =
        Inr (newInstance\<lparr>self_url := Some ''https://example.com/a'',
                          self_type := Some ''image/png''\<rparr>)
   \<and> \<not> (hasFile offlineBrowser \<and> instanceofFile helloUint8Array)
   \<and> \<not> (hasBlob offlineBrowser \<and> instanceofBlob helloUint8Array)
   \<and> ejsonBinary helloUint8Array
   \<and> DataMan offlineBrowser (Obj helloUint8Array) (Some ''text/plain'') =
        Inr (newInstance\<lparr>self_blob := Some \<lparr>bytes = hello, btype = ''text/plain''\<rparr>,
                          self_type := Some ''text/plain''\<rparr>)
   \<and> DataMan nodeServer (Obj helloUint8Array) (Some ''text/plain'') =
        Inl (Error ''Browser must support Blobs to handle an ArrayBuffer or Uint8Array'')
   \<and> sliceList ''ftp://example.com/a'' 0 5 \<noteq> ''data:''
   \<and> sliceList ''ftp://example.com/a'' 0 5 \<noteq> ''http:''
   \<and> sliceList ''ftp://example.com/a'' 0 6 \<noteq> ''https:''
   \<and> DataMan offlineBrowser (Str ''ftp://example.com/a'') None =
        Inl (Error ''DataMan constructor received unrecognized data string'')
   \<and> \<not> (hasArrayBuffer offlineBrowser \<and> instanceofArrayBuffer plainObject)
   \<and> \<not> ejsonBinary plainObject
   \<and> DataMan offlineBrowser (Obj plainObject) None =
        Inl (Error ''DataMan constructor received data that it doesn't support'')
   \<and> DataMan offlineBrowser (Num 42) None =
        Inl (Error ''DataMan constructor received data that it doesn't support'')"
proof -
  have h: "hasFile offlineBrowser" "hasBlob offlineBrowser" "hasArrayBuffer offlineBrowser"
    "\<not> hasBlob nodeServer" "\<not> hasFile nodeServer"
    by (simp_all add: offlineBrowser_def nodeServer_def)
  have o: "instanceofBlob taggedBlob" "ejsonBinary taggedBlob"
    "asBlob taggedBlob = \<lparr>bytes = hello, btype = ''text/plain''\<rparr>" "otype taggedBlob = ''text/plain''"
    "\<not> instanceofFile helloUint8Array" "\<not> instanceofBlob helloUint8Array"
    "ejsonBinary helloUint8Array" "content helloUint8Array = hello"
    "\<not> instanceofFile plainObject" "\<not> instanceofBlob plainObject"
    "\<not> instanceofArrayBuffer plainObject" "\<not> ejsonBinary plainObject"
    by (simp_all add: taggedBlob_def helloBlob_def helloUint8Array_def plainObject_def asBlob_def)
  have s: "sliceList ''data:text/plain,hello'' 0 5 = ''data:''"
    "sliceList ''https://example.com/a'' 0 5 \<noteq> ''data:''"
    "sliceList ''https://example.com/a'' 0 6 = ''https:''"
    "sliceList ''ftp://example.com/a'' 0 5 \<noteq> ''data:''"
    "sliceList ''ftp://example.com/a'' 0 5 \<noteq> ''http:''"
    "sliceList ''ftp://example.com/a'' 0 6 \<noteq> ''https:''"
    by (simp_all add: sliceList_def relIndex_def)
  have m: "CHR '';'' \<notin> set ''text/html''" by simp
  have i: "sliceList ''data:text/plain,hello'' 5 (indexOf ''data:text/plain,hello'' CHR '';'') =
      ''text/plain,hell''"
    by (simp add: sliceList_def relIndex_def Let_def)
  note a = constructor_classification
      [of offlineBrowser taggedBlob "Some ''image/png''" "''text/html''" "''charset=utf-8,abc''"
          "''data:text/plain,hello''" "''https://example.com/a''" 42]
  note b = constructor_classification
      [of offlineBrowser helloUint8Array "Some ''text/plain''" "''text/html''" "''charset=utf-8,abc''"
          "''data:text/plain,hello''" "''ftp://example.com/a''" 42]
  note c = constructor_classification
      [of nodeServer helloUint8Array "Some ''text/plain''" "''text/html''" "''charset=utf-8,abc''"
          "''data:text/plain,hello''" "''ftp://example.com/a''" 42]
  note d = constructor_classification
      [of offlineBrowser plainObject None "''text/html''" "''charset=utf-8,abc''"
          "''data:text/plain,hello''" "''ftp://example.com/a''" 42]
  show ?thesis
    using a b c d h o s m i newBlob_def normalizeType_plain by simp
qed

section \<open>The buffer variant\<close>

text \<open>
  Claim C7. On the buffer variant made of the bytes \<open>[72,101,108,108,111]\<close> with type
  \<open>text/plain\<close>, \<open>getDataUri\<close> calls the callback with
  \<open>data:text/plain;base64,SGVsbG8=\<close>. For every buffer and every non-empty type \<open>t\<close>
  it delivers \<open>data:\<close>, \<open>t\<close>, \<open>;base64,\<close> and the base64 text of the buffer, stores
  that string and delivers it again on the next call; with no type (or the empty
  string) it calls the callback at once with the missing-content-type error.
\<close>

theorem bufferGetDataUri:
  "dataManBufferGetDataUri (DataManBuffer [72, 101, 108, 108, 111] (Some ''text/plain'')) =
     ((DataManBuffer [72, 101, 108, 108, 111] (Some ''text/plain''))
        \<lparr>buf_dataUri := Some ''data:text/plain;base64,SGVsbG8=''\<rparr>,
      [], Callback (Inr ''data:text/plain;base64,SGVsbG8=''))
   \<and> (t \<noteq> [] \<longrightarrow>
        dataManBufferGetDataUri (DataManBuffer buf (Some t)) =
          ((DataManBuffer buf (Some t))
             \<lparr>buf_dataUri := Some (''data:'' @ t @ '';base64,'' @ base64 buf)\<rparr>,
           [], Callback (Inr (''data:'' @ t @ '';base64,'' @ base64 buf)))
      \<and> dataManBufferGetDataUri (fst (dataManBufferGetDataUri (DataManBuffer buf (Some t)))) =
          (fst (dataManBufferGetDataUri (DataManBuffer buf (Some t))),
           [], Callback (Inr (''data:'' @ t @ '';base64,'' @ base64 buf))))
   \<and> dataManBufferGetDataUri (DataManBuffer buf None) =
        (DataManBuffer buf None, [],
         Callback (Inl (Error ''DataMan.getDataUri couldn't get a contentType'')))
   \<and> dataManBufferGetDataUri (DataManBuffer buf (Some [])) =
        (DataManBuffer buf (Some []), [],
         Callback (Inl (Error ''DataMan.getDataUri couldn't get a contentType'')))"
proof -
  have p1: "dataManBufferGetDataUri (DataManBuffer [72, 101, 108, 108, 111] (Some ''text/plain'')) =
     ((DataManBuffer [72, 101, 108, 108, 111] (Some ''text/plain''))
        \<lparr>buf_dataUri := Some ''data:text/plain;base64,SGVsbG8=''\<rparr>,
      [], Callback (Inr ''data:text/plain;base64,SGVsbG8=''))"
    by (simp add: dataManBufferGetDataUri_def DataManBuffer_def truthy_def Let_def
        b64char_def b64alphabet_def)
  have p2: "t \<noteq> [] \<longrightarrow>
        dataManBufferGetDataUri (DataManBuffer buf (Some t)) =
          ((DataManBuffer buf (Some t))
             \<lparr>buf_dataUri := Some (''data:'' @ t @ '';base64,'' @ base64 buf)\<rparr>,
           [], Callback (Inr (''data:'' @ t @ '';base64,'' @ base64 buf)))
      \<and> dataManBufferGetDataUri (fst (dataManBufferGetDataUri (DataManBuffer buf (Some t)))) =
          (fst (dataManBufferGetDataUri (DataManBuffer buf (Some t))),
           [], Callback (Inr (''data:'' @ t @ '';base64,'' @ base64 buf)))"
    by (simp add: dataManBufferGetDataUri_def DataManBuffer_def truthy_def Let_def)
  have p3: "dataManBufferGetDataUri (DataManBuffer buf None) =
        (DataManBuffer buf None, [],
         Callback (Inl (Error ''DataMan.getDataUri couldn't get a contentType'')))"
    by (simp add: dataManBufferGetDataUri_def DataManBuffer_def truthy_def)
  have p4: "dataManBufferGetDataUri (DataManBuffer buf (Some [])) =
        (DataManBuffer buf (Some []), [],
         Callback (Inl (Error ''DataMan.getDataUri couldn't get a contentType'')))"
    by (simp add: dataManBufferGetDataUri_def DataManBuffer_def truthy_def)
  show ?thesis
    by (rule conjI [OF p1 conjI [OF p2 conjI [OF p3 p4]]])
qed

theorem bufferGetDataUri_witness:
  "''image/png'' \<noteq> []
   \<and> snd (snd (dataManBufferGetDataUri (DataManBuffer [0, 255] (Some ''image/png'')))) =
       Callback (Inr ''data:image/png;base64,AP8='')
   \<and> snd (snd (dataManBufferGetDataUri
        (fst (dataManBufferGetDataUri (DataManBuffer [0, 255] (Some ''image/png'')))))) =
       Callback (Inr ''data:image/png;base64,AP8='')"
proof -
  have b: "base64 [0, 255] = ''AP8=''"
    by (simp add: b64char_def b64alphabet_def)
  have n: "''image/png'' \<noteq> []" by simp
  note th = bufferGetDataUri [of "''image/png''" "[0, 255]", THEN conjunct2, THEN conjunct1,
      THEN mp, OF n]
  have e1: "snd (snd (dataManBufferGetDataUri (DataManBuffer [0, 255] (Some ''image/png'')))) =
       Callback (Inr ''data:image/png;base64,AP8='')"
    using th [THEN conjunct1] b by simp
  have e2: "snd (snd (dataManBufferGetDataUri
        (fst (dataManBufferGetDataUri (DataManBuffer [0, 255] (Some ''image/png'')))))) =
       Callback (Inr ''data:image/png;base64,AP8='')"
    using th [THEN conjunct2] b by simp
  show ?thesis using n e1 e2 by blast
qed

text \<open>
  Claim C9. \<open>createReadStream\<close> does not read the instance: its result is the same
  for every buffer the instance may hold. On a host without a global \<open>self\<close> the call
  faults with a \<open>ReferenceError\<close> on \<open>self\<close> and returns no stream.
\<close>

theorem createReadStream_faults:
  "(globalSelf h = None \<longrightarrow>
      dataManBufferCreateReadStream h this = Inl (ReferenceError ''self''))
   \<and> dataManBufferCreateReadStream h this = dataManBufferCreateReadStream h (this\<lparr>buffer := other\<rparr>)
   \<and> dataManBufferCreateReadStream h (DataManBuffer buf typ) =
       dataManBufferCreateReadStream h (DataManBuffer other typ)"
  by (simp add: dataManBufferCreateReadStream_def split: option.splits)

theorem createReadStream_faults_witness:
  "globalSelf nodeServer = None
   \<and> dataManBufferCreateReadStream nodeServer (DataManBuffer hello (Some ''text/plain'')) =
       Inl (ReferenceError ''self'')"
proof -
  have g: "globalSelf nodeServer = None" by (simp add: nodeServer_def)
  show ?thesis
    using createReadStream_faults [of nodeServer "DataManBuffer hello (Some ''text/plain'')"] g
    by simp
qed

end
